theory Spec2Isabelle
  imports Complex_Main
begin

section \<open>Numbers, non-finite results and exceptions\<close>

text \<open>
  The simulation in \<^verbatim>\<open>simulation.py\<close> computes with 64-bit floats. It is embedded twice.

  The first embedding evaluates the code's expressions in exact real arithmetic: a
  finite float is the real number it stands for, and the literals \<^verbatim>\<open>9.81\<close>, \<^verbatim>\<open>np.pi\<close> and
  \<^verbatim>\<open>1.1\<close> are the reals of the same name. It carries the properties that do not depend on
  rounding: which expression a function evaluates, which fields it assigns, what the
  trail lists hold.

  The second embedding, further down, computes as the processor does: every
  operation rounds to the nearest double, overflows to an infinity, and follows the
  rules of IEEE 754 for zeros, infinities and NaN. It carries the properties that
  rounding decides.

  In both, two behaviours of division are kept apart, as Python keeps them apart:
  \<^item> \<^verbatim>\<open>/\<close> between two Python floats raises \<^verbatim>\<open>ZeroDivisionError\<close> when the divisor is zero
    (\<^verbatim>\<open>self.L2/self.L1\<close>);
  \<^item> \<^verbatim>\<open>/\<close> between NumPy scalars raises nothing: a zero divisor gives \<^verbatim>\<open>inf\<close>, \<^verbatim>\<open>-inf\<close> or
    \<^verbatim>\<open>nan\<close> (and a warning). Every numerator and denominator of \<^verbatim>\<open>derivs\<close> has a factor
    \<^verbatim>\<open>np.sin(...)\<close> or \<^verbatim>\<open>np.cos(...)\<close>, so both are NumPy scalars.
\<close>

datatype py_error = ZeroDivisionError | IndexError

datatype npfloat = Finite real | NonFinite

definition py_div :: "real \<Rightarrow> real \<Rightarrow> py_error + real" where
  "py_div a b = (if b = 0 then Inl ZeroDivisionError else Inr (a / b))"

definition np_div :: "real \<Rightarrow> real \<Rightarrow> npfloat" where
  "np_div a b = (if b = 0 then NonFinite else Finite (a / b))"

section \<open>The engine: class \<^verbatim>\<open>DoublePendulum\<close>\<close>

text \<open>
  \<^verbatim>\<open>self.state\<close> is an array of four floats, \<^verbatim>\<open>th1, w1, th2, w2\<close> at the indices 0, 1, 2, 3
  (the comment at its initialisation names them so).
\<close>

record state_vec =
  th1 :: real
  w1 :: real
  th2 :: real
  w2 :: real

record pendulum =
  L1 :: real
  L2 :: real
  M1 :: real
  M2 :: real
  g :: real
  state :: state_vec

type_synonym rate_vec = "npfloat \<times> npfloat \<times> npfloat \<times> npfloat"

type_synonym positions = "real \<times> real \<times> real \<times> real"

text \<open>
  \<^verbatim>\<open>__init__(self, L1=1.0, L2=1.0, M1=1.0, M2=1.0)\<close>: an argument left out is \<open>None\<close>
  and takes its default.
\<close>

definition DoublePendulum ::
  "real option \<Rightarrow> real option \<Rightarrow> real option \<Rightarrow> real option \<Rightarrow> pendulum" where
  "DoublePendulum l1 l2 m1 m2 =
     \<lparr> L1 = (case l1 of None \<Rightarrow> 1.0 | Some v \<Rightarrow> v),
       L2 = (case l2 of None \<Rightarrow> 1.0 | Some v \<Rightarrow> v),
       M1 = (case m1 of None \<Rightarrow> 1.0 | Some v \<Rightarrow> v),
       M2 = (case m2 of None \<Rightarrow> 1.0 | Some v \<Rightarrow> v),
       g = 9.81,
       state = \<lparr> th1 = pi / 1.1, w1 = 0, th2 = pi / 1.1, w2 = 0 \<rparr> \<rparr>"

text \<open>
  The two denominators of \<^verbatim>\<open>derivs\<close> (its local variables \<^verbatim>\<open>den1\<close> and \<^verbatim>\<open>den2\<close>).
  \<^verbatim>\<open>den2 = (self.L2/self.L1) * den1\<close> divides two Python floats first.
\<close>

definition den1 :: "pendulum \<Rightarrow> state_vec \<Rightarrow> real" where
  "den1 self st =
     (let delta = th2 st - th1 st
      in (M1 self + M2 self) * L1 self - M2 self * L1 self * cos delta * cos delta)"

definition den2 :: "pendulum \<Rightarrow> state_vec \<Rightarrow> py_error + real" where
  "den2 self st =
     (case py_div (L2 self) (L1 self) of
        Inl e \<Rightarrow> Inl e
      | Inr q \<Rightarrow> Inr (q * den1 self st))"

text \<open>
  \<^verbatim>\<open>derivs(self, state, t)\<close>. The statements run in the source's order: \<^verbatim>\<open>dydx[1]\<close> is
  computed (a NumPy division) before \<^verbatim>\<open>den2\<close>, whose Python division may raise; an
  exception abandons the whole call.
\<close>

definition derivs :: "pendulum \<Rightarrow> state_vec \<Rightarrow> real \<Rightarrow> py_error + rate_vec" where
  "derivs self st t =
     (let dydx0 = Finite (w1 st);
          delta = th2 st - th1 st;
          dydx1 = np_div
            (M2 self * L1 self * w1 st * w1 st * sin delta * cos delta
             + M2 self * g self * sin (th2 st) * cos delta
             + M2 self * L2 self * w2 st * w2 st * sin delta
             - (M1 self + M2 self) * g self * sin (th1 st))
            (den1 self st);
          dydx2 = Finite (w2 st)
      in case den2 self st of
           Inl e \<Rightarrow> Inl e
         | Inr d2 \<Rightarrow>
             Inr (dydx0, dydx1, dydx2,
                  np_div
                    (- M2 self * L2 self * w2 st * w2 st * sin delta * cos delta
                     + (M1 self + M2 self) * g self * sin (th1 st) * cos delta
                     - (M1 self + M2 self) * L1 self * w1 st * w1 st * sin delta
                     - (M1 self + M2 self) * g self * sin (th2 st))
                    d2))"

definition get_pos :: "pendulum \<Rightarrow> positions" where
  "get_pos self =
     (let th1' = th1 (state self); th2' = th2 (state self);
          x1 = L1 self * sin th1';
          y1 = - L1 self * cos th1';
          x2 = x1 + L2 self * sin th2';
          y2 = y1 - L2 self * cos th2'
      in (x1, y1, x2, y2))"

text \<open>
  \<^verbatim>\<open>scipy.integrate.odeint\<close> is a library routine, not code of this repository: it is a
  parameter of \<^verbatim>\<open>step\<close>. It receives the derivative function, the initial state and the
  list of times, and gives back one state per time, or the exception that the
  derivative function raised.
\<close>

type_synonym ode_solver =
  "(state_vec \<Rightarrow> real \<Rightarrow> py_error + rate_vec) \<Rightarrow> state_vec \<Rightarrow> real list
     \<Rightarrow> py_error + state_vec list"

definition step :: "ode_solver \<Rightarrow> pendulum \<Rightarrow> real \<Rightarrow> py_error + pendulum \<times> positions" where
  "step odeint self dt =
     (let t_span = [0, dt]
      in case odeint (derivs self) (state self) t_span of
           Inl e \<Rightarrow> Inl e
         | Inr rows \<Rightarrow>
             if 1 < length rows
             then (let next_state = rows ! 1;
                       self' = self\<lparr>state := next_state\<rparr>
                   in Inr (self', get_pos self'))
             else Inl IndexError)"

section \<open>The animation loop: trail history\<close>

definition max_history :: nat where
  "max_history = 200"

definition dt :: real where
  "dt = 0.04"

text \<open>\<^verbatim>\<open>list.pop(0)\<close> removes the first element; on an empty list it raises.\<close>

definition pop0 :: "'a list \<Rightarrow> py_error + 'a list" where
  "pop0 xs = (case xs of [] \<Rightarrow> Inl IndexError | x # rest \<Rightarrow> Inr rest)"

text \<open>
  The trace memory of \<^verbatim>\<open>update\<close> (its lines from \<^verbatim>\<open>history_x.append(x2)\<close> to
  \<^verbatim>\<open>history_y.pop(0)\<close>) on the two global lists.
\<close>

definition append_history ::
  "real list \<times> real list \<Rightarrow> real \<times> real \<Rightarrow> py_error + real list \<times> real list" where
  "append_history h p =
     (let history_x = fst h @ [fst p];
          history_y = snd h @ [snd p]
      in if max_history < length history_x
         then (case pop0 history_x of
                 Inl e \<Rightarrow> Inl e
               | Inr hx \<Rightarrow>
                   (case pop0 history_y of
                      Inl e \<Rightarrow> Inl e
                    | Inr hy \<Rightarrow> Inr (hx, hy)))
         else Inr (history_x, history_y))"

text \<open>
  The globals that \<^verbatim>\<open>update\<close> reads and writes. The Matplotlib artists it redraws
  (\<^verbatim>\<open>line\<close>, \<^verbatim>\<open>trace\<close> and the two bloom lines) are presentation and are left out.
\<close>

record animation =
  sim :: pendulum
  history_x :: "real list"
  history_y :: "real list"

definition update :: "ode_solver \<Rightarrow> animation \<Rightarrow> py_error + animation" where
  "update odeint a =
     (case step odeint (sim a) dt of
        Inl e \<Rightarrow> Inl e
      | Inr (sim', (x1, y1, x2, y2)) \<Rightarrow>
          (case append_history (history_x a, history_y a) (x2, y2) of
             Inl e \<Rightarrow> Inl e
           | Inr (hx, hy) \<Rightarrow> Inr \<lparr> sim = sim', history_x = hx, history_y = hy \<rparr>))"

section \<open>Scenarios\<close>

text \<open>Appending a sequence of points to the trail, one \<^verbatim>\<open>update\<close> after the other.\<close>

fun append_all ::
  "real list \<times> real list \<Rightarrow> (real \<times> real) list \<Rightarrow> py_error + real list \<times> real list" where
  "append_all h [] = Inr h"
| "append_all h (p # ps) =
     (case append_history h p of Inl e \<Rightarrow> Inl e | Inr h' \<Rightarrow> append_all h' ps)"



text \<open>
  A solver to run the model with: explicit Euler steps between the requested times,
  holding a component whose rate is not finite.
\<close>

definition advance :: "real \<Rightarrow> real \<Rightarrow> npfloat \<Rightarrow> real" where
  "advance y h r = (case r of Finite v \<Rightarrow> y + h * v | NonFinite \<Rightarrow> y)"

fun euler_rows ::
  "(state_vec \<Rightarrow> real \<Rightarrow> py_error + rate_vec) \<Rightarrow> state_vec \<Rightarrow> real \<Rightarrow> real list
     \<Rightarrow> py_error + state_vec list" where
  "euler_rows f y t0 [] = Inr []"
| "euler_rows f y t0 (t # ts) =
     (case f y t0 of
        Inl e \<Rightarrow> Inl e
      | Inr (r0, r1, r2, r3) \<Rightarrow>
          (let y' = \<lparr> th1 = advance (th1 y) (t - t0) r0, w1 = advance (w1 y) (t - t0) r1,
                      th2 = advance (th2 y) (t - t0) r2, w2 = advance (w2 y) (t - t0) r3 \<rparr>
           in case euler_rows f y' t ts of
                Inl e \<Rightarrow> Inl e
              | Inr rows \<Rightarrow> Inr (y' # rows)))"

definition euler :: ode_solver where
  "euler f y0 ts = (case ts of [] \<Rightarrow> Inr [] | t0 # rest \<Rightarrow>
     (case euler_rows f y0 t0 rest of Inl e \<Rightarrow> Inl e | Inr rows \<Rightarrow> Inr (y0 # rows)))"

section \<open>Binary64 arithmetic\<close>

text \<open>
  A double is a real number \<open>m \<sqdot> 2\<^sup>e\<close> with a 53-bit integer \<open>m\<close>. The result of an
  operation is the exact result rounded to the nearest such number, a tie going to the
  even \<open>m\<close>. \<open>quantum x\<close> is the spacing of the doubles around \<open>x\<close>: \<open>2\<^sup>e\<^sup>-\<^sup>5\<^sup>2\<close> for
  \<open>2\<^sup>e \<le> |x| < 2\<^sup>e\<^sup>+\<^sup>1\<close>, and \<open>2\<^sup>-\<^sup>1\<^sup>0\<^sup>7\<^sup>4\<close> below \<open>2\<^sup>-\<^sup>1\<^sup>0\<^sup>2\<^sup>2\<close> (the subnormal numbers).
\<close>

definition rne :: "real \<Rightarrow> int" where
  "rne r = (let f = \<lfloor>r\<rfloor>; d = r - of_int f
            in if d < 1 / 2 then f else if 1 / 2 < d then f + 1
               else if even f then f else f + 1)"

definition quantum :: "real \<Rightarrow> real" where
  "quantum x = 2 powi (max \<lfloor>log 2 \<bar>x\<bar>\<rfloor> (- 1022) - 52)"

definition round64 :: "real \<Rightarrow> real" where
  "round64 x = (if x = 0 then 0 else of_int (rne (x / quantum x)) * quantum x)"

text \<open>
  The values of a double: a finite number with \<open>Fin 0\<close> for \<^verbatim>\<open>+0.0\<close>, \<^verbatim>\<open>-0.0\<close>, the two
  infinities and NaN. \<open>finish\<close> delivers a non-zero exact result: rounded, an infinity
  when the rounded magnitude reaches \<open>2\<^sup>1\<^sup>0\<^sup>2\<^sup>4\<close>, a zero of the result's sign when it rounds to
  zero.
\<close>

datatype f64 = Fin real | NegZero | PInf | NInf | NaN

fun is_finite :: "f64 \<Rightarrow> bool" where
  "is_finite (Fin x) = True"
| "is_finite NegZero = True"
| "is_finite a = False"

fun real_of :: "f64 \<Rightarrow> real" where
  "real_of (Fin x) = x"
| "real_of a = 0"

fun sign_bit :: "f64 \<Rightarrow> bool" where
  "sign_bit (Fin x) = (x < 0)"
| "sign_bit NegZero = True"
| "sign_bit NInf = True"
| "sign_bit a = False"

fun is_zero :: "f64 \<Rightarrow> bool" where
  "is_zero (Fin x) = (x = 0)"
| "is_zero NegZero = True"
| "is_zero a = False"

fun is_inf :: "f64 \<Rightarrow> bool" where
  "is_inf PInf = True"
| "is_inf NInf = True"
| "is_inf a = False"

definition zero_of :: "bool \<Rightarrow> f64" where
  "zero_of s = (if s then NegZero else Fin 0)"

definition inf_of :: "bool \<Rightarrow> f64" where
  "inf_of s = (if s then NInf else PInf)"

definition finish :: "real \<Rightarrow> f64" where
  "finish r =
     (let y = round64 r
      in if 2 ^ 1024 \<le> \<bar>y\<bar> then inf_of (r < 0)
         else if y = 0 then zero_of (r < 0)
         else Fin y)"

text \<open>
  Negation, addition, subtraction, multiplication and division as IEEE 754 defines
  them in the default rounding mode. An exact zero sum is \<^verbatim>\<open>-0.0\<close> only when both terms
  are; the sign of a product or quotient is the exclusive or of the signs; a non-zero
  number divided by a zero is an infinity, and zero by zero is NaN. These raise nothing
  (NumPy warns); the division of two Python floats checks its divisor first.
\<close>

fun neg64 :: "f64 \<Rightarrow> f64" where
  "neg64 (Fin x) = (if x = 0 then NegZero else Fin (- x))"
| "neg64 NegZero = Fin 0"
| "neg64 PInf = NInf"
| "neg64 NInf = PInf"
| "neg64 NaN = NaN"

definition add64 :: "f64 \<Rightarrow> f64 \<Rightarrow> f64" where
  "add64 a b =
     (if a = NaN \<or> b = NaN then NaN
      else if is_inf a then (if is_inf b \<and> a \<noteq> b then NaN else a)
      else if is_inf b then b
      else (let r = real_of a + real_of b
            in if r = 0 then zero_of (sign_bit a \<and> sign_bit b) else finish r))"

definition sub64 :: "f64 \<Rightarrow> f64 \<Rightarrow> f64" where
  "sub64 a b = add64 a (neg64 b)"

definition mul64 :: "f64 \<Rightarrow> f64 \<Rightarrow> f64" where
  "mul64 a b =
     (if a = NaN \<or> b = NaN then NaN
      else if is_inf a \<or> is_inf b
           then (if is_zero a \<or> is_zero b then NaN else inf_of (sign_bit a \<noteq> sign_bit b))
      else (let r = real_of a * real_of b
            in if r = 0 then zero_of (sign_bit a \<noteq> sign_bit b) else finish r))"

definition div64 :: "f64 \<Rightarrow> f64 \<Rightarrow> f64" where
  "div64 a b =
     (if a = NaN \<or> b = NaN then NaN
      else if is_inf a then (if is_inf b then NaN else inf_of (sign_bit a \<noteq> sign_bit b))
      else if is_inf b then zero_of (sign_bit a \<noteq> sign_bit b)
      else if is_zero b
           then (if is_zero a then NaN else inf_of (sign_bit a \<noteq> sign_bit b))
      else (let r = real_of a / real_of b
            in if r = 0 then zero_of (sign_bit a \<noteq> sign_bit b) else finish r))"


text \<open>
  \<^verbatim>\<open>np.sin\<close> and \<^verbatim>\<open>np.cos\<close> belong to the C library: what they return for a finite
  argument is a parameter \<open>lib\<close> of the functions below. For \<^verbatim>\<open>-0.0\<close> the sine is \<^verbatim>\<open>-0.0\<close>,
  for an infinity or NaN both return NaN (with a warning). \<open>libm_nearest\<close> is the
  library that returns the double nearest to the sine and to the cosine.
\<close>

record libm =
  lsin :: "real \<Rightarrow> real"
  lcos :: "real \<Rightarrow> real"

definition np_sin :: "libm \<Rightarrow> f64 \<Rightarrow> f64" where
  "np_sin lib a = (case a of Fin x \<Rightarrow> Fin (lsin lib x) | NegZero \<Rightarrow> NegZero | _ \<Rightarrow> NaN)"

definition np_cos :: "libm \<Rightarrow> f64 \<Rightarrow> f64" where
  "np_cos lib a = (case a of Fin x \<Rightarrow> Fin (lcos lib x) | NegZero \<Rightarrow> Fin (lcos lib 0) | _ \<Rightarrow> NaN)"


definition libm_in_range :: "libm \<Rightarrow> bool" where
  "libm_in_range lib \<longleftrightarrow> (\<forall>x. \<bar>lsin lib x\<bar> \<le> 1 \<and> \<bar>lcos lib x\<bar> \<le> 1)"

section \<open>The engine in binary64\<close>

text \<open>
  The class once more, every field and every entry of the state a double, each
  operation in the order in which Python evaluates it (\<^verbatim>\<open>a * b * c\<close> is \<^verbatim>\<open>(a * b) * c\<close>,
  \<^verbatim>\<open>- a * b\<close> is \<^verbatim>\<open>(- a) * b\<close>, \<^verbatim>\<open>a + b + c - d\<close> is \<^verbatim>\<open>((a + b) + c) - d\<close>). \<open>num1_64\<close> and
  \<open>num2_64\<close> are the numerators of \<^verbatim>\<open>dydx[1]\<close> and \<^verbatim>\<open>dydx[3]\<close>.
\<close>

record state64 =
  th1_64 :: f64
  w1_64 :: f64
  th2_64 :: f64
  w2_64 :: f64

record engine64 =
  L1_64 :: f64
  L2_64 :: f64
  M1_64 :: f64
  M2_64 :: f64
  g_64 :: f64
  state_64 :: state64







definition get_pos64 :: "libm \<Rightarrow> engine64 \<Rightarrow> f64 \<times> f64 \<times> f64 \<times> f64" where
  "get_pos64 lib self =
     (let th1' = th1_64 (state_64 self); th2' = th2_64 (state_64 self);
          x1 = mul64 (L1_64 self) (np_sin lib th1');
          y1 = mul64 (neg64 (L1_64 self)) (np_cos lib th1');
          x2 = add64 x1 (mul64 (L2_64 self) (np_sin lib th2'));
          y2 = sub64 y1 (mul64 (L2_64 self) (np_cos lib th2'))
      in (x1, y1, x2, y2))"





text \<open>
  \<^verbatim>\<open>np.random.uniform(low, high)\<close> is NumPy's \<^verbatim>\<open>low + (high - low) * random_sample()\<close>,
  with \<^verbatim>\<open>random_sample()\<close> a double in the half-open interval from 0 to 1. The two samples
  that one call of \<^verbatim>\<open>perturb\<close> consumes are arguments \<open>u1\<close> and \<open>u2\<close> of the model.
  \<^verbatim>\<open>perturb(self, strength=2.0)\<close> updates two entries of the state array in place and
  prints one line, which the model returns beside the engine.
\<close>

definition uniform64 :: "f64 \<Rightarrow> f64 \<Rightarrow> f64 \<Rightarrow> f64" where
  "uniform64 low high u = add64 low (mul64 (sub64 high low) u)"

definition perturb64 :: "engine64 \<Rightarrow> f64 option \<Rightarrow> f64 \<Rightarrow> f64 \<Rightarrow> engine64 \<times> string" where
  "perturb64 self strength u1 u2 =
     (let s = (case strength of None \<Rightarrow> Fin 2 | Some v \<Rightarrow> v);
          st1 = (state_64 self)\<lparr>w1_64 := add64 (w1_64 (state_64 self)) (uniform64 (neg64 s) s u1)\<rparr>;
          st2 = st1\<lparr>w2_64 := add64 (w2_64 st1) (uniform64 (neg64 s) s u2)\<rparr>
      in (self\<lparr>state_64 := st2\<rparr>, ''Pendulum Perturbed! New energy injected.''))"

text \<open>
  Doubles and engines that the examples below use: the doubles nearest to 9.81 and to
  0.04, the state at rest (hanging straight down), an engine with given lengths and
  masses, and the two states through which a rate that is not finite travels.
\<close>

definition g64 :: real where
  "g64 = 5522539043063071 / 2 ^ 49"


definition rest64 :: state64 where
  "rest64 = \<lparr> th1_64 = Fin 0, w1_64 = Fin 0, th2_64 = Fin 0, w2_64 = Fin 0 \<rparr>"

definition engine64_of :: "real \<Rightarrow> real \<Rightarrow> real \<Rightarrow> real \<Rightarrow> state64 \<Rightarrow> engine64" where
  "engine64_of l1 l2 m1 m2 st =
     \<lparr> L1_64 = Fin l1, L2_64 = Fin l2, M1_64 = Fin m1, M2_64 = Fin m2, g_64 = Fin g64,
       state_64 = st \<rparr>"



text \<open>
  A state that spins fast: \<open>\<omega>1 = 2\<^sup>5\<^sup>4\<close>, where neighbouring doubles are 4 apart.
\<close>

definition spinning64 :: state64 where
  "spinning64 = \<lparr> th1_64 = Fin 0, w1_64 = Fin (2 ^ 54), th2_64 = Fin 0, w2_64 = Fin 0 \<rparr>"

section \<open>The denominators and the exceptions of \<^verbatim>\<open>derivs\<close>\<close>





lemma den2_raises:
  assumes "L1 self = 0"
  shows "den2 self st = Inl ZeroDivisionError"
  using assms by (simp add: den2_def py_div_def)

lemma derivs_raises:
  assumes "L1 self = 0"
  shows "derivs self st t = Inl ZeroDivisionError"
  using assms by (simp add: derivs_def Let_def den2_raises)


section \<open>The derivative function\<close>




section \<open>Construction and coordinate conversion\<close>

text \<open>
  Claim C6. Construction without arguments gives \<open>L1 = L2 = M1 = M2 = 1\<close>; whatever the
  arguments, \<open>g\<close> is 9.81 and the state is \<open>(\<pi> / 1.1, 0, \<pi> / 1.1, 0)\<close>; an argument that
  is given becomes the field of its name.
\<close>

theorem construction:
  "DoublePendulum None None None None =
     \<lparr> L1 = 1, L2 = 1, M1 = 1, M2 = 1, g = 9.81,
       state = \<lparr> th1 = pi / 1.1, w1 = 0, th2 = pi / 1.1, w2 = 0 \<rparr> \<rparr> \<and>
   g (DoublePendulum l1 l2 m1 m2) = 9.81 \<and>
   state (DoublePendulum l1 l2 m1 m2) = \<lparr> th1 = pi / 1.1, w1 = 0, th2 = pi / 1.1, w2 = 0 \<rparr> \<and>
   L1 (DoublePendulum (Some a) l2 m1 m2) = a \<and>
   L2 (DoublePendulum l1 (Some a) m1 m2) = a \<and>
   M1 (DoublePendulum l1 l2 (Some a) m2) = a \<and>
   M2 (DoublePendulum l1 l2 m1 (Some a)) = a"
  by (simp add: DoublePendulum_def)

theorem construction_witness:
  "DoublePendulum None None None None =
     \<lparr> L1 = 1, L2 = 1, M1 = 1, M2 = 1, g = 9.81,
       state = \<lparr> th1 = pi / 1.1, w1 = 0, th2 = pi / 1.1, w2 = 0 \<rparr> \<rparr> \<and>
   DoublePendulum (Some 2) (Some 3) (Some 5) (Some 7) =
     \<lparr> L1 = 2, L2 = 3, M1 = 5, M2 = 7, g = 9.81,
       state = \<lparr> th1 = pi / 1.1, w1 = 0, th2 = pi / 1.1, w2 = 0 \<rparr> \<rparr>"
  using construction [of "Some 2" "Some 3" "Some 5" "Some 7" 2]
    construction [of "Some 2" "Some 3" "Some 5" "Some 7" 3]
    construction [of "Some 2" "Some 3" "Some 5" "Some 7" 5]
    construction [of "Some 2" "Some 3" "Some 5" "Some 7" 7]
  by (simp add: DoublePendulum_def)

text \<open>
  Claim C3. \<^verbatim>\<open>get_pos\<close> returns \<open>x1 = L1 sin \<theta>1\<close>, \<open>y1 = - L1 cos \<theta>1\<close>,
  \<open>x2 = x1 + L2 sin \<theta>2\<close>, \<open>y2 = y1 - L2 cos \<theta>2\<close>. It is a function of the engine that
  returns the four coordinates and no engine: it assigns to no field.
\<close>

theorem get_pos_formula:
  "get_pos self =
     (L1 self * sin (th1 (state self)),
      - L1 self * cos (th1 (state self)),
      L1 self * sin (th1 (state self)) + L2 self * sin (th2 (state self)),
      - L1 self * cos (th1 (state self)) - L2 self * cos (th2 (state self)))"
  by (simp add: get_pos_def Let_def)

theorem get_pos_formula_witness:
  "get_pos ((DoublePendulum (Some 2) (Some 3) None None)
              \<lparr>state := \<lparr> th1 = pi / 2, w1 = 1, th2 = pi, w2 = 1 \<rparr>\<rparr>) = (2, 0, 2, 3)"
  using get_pos_formula [of "(DoublePendulum (Some 2) (Some 3) None None)
              \<lparr>state := \<lparr> th1 = pi / 2, w1 = 1, th2 = pi, w2 = 1 \<rparr>\<rparr>"]
  by (simp add: DoublePendulum_def)

text \<open>
  Claim C8. Hanging straight down (\<open>\<theta>1 = \<theta>2 = 0\<close>, any velocities) the positions are
  \<open>(0, - L1, 0, - (L1 + L2))\<close>; with \<open>L1 = L2 = 1\<close> and \<open>\<theta>1 = \<theta>2 = \<pi> / 2\<close> they are
  \<open>(1, 0, 2, 0)\<close>, so within \<open>10\<^sup>-\<^sup>9\<close> of these values.
\<close>

theorem get_pos_examples:
  "get_pos (self\<lparr>state := \<lparr> th1 = 0, w1 = a, th2 = 0, w2 = b \<rparr>\<rparr>)
     = (0, - L1 self, 0, - (L1 self + L2 self)) \<and>
   (case get_pos \<lparr> L1 = 1, L2 = 1, M1 = ma, M2 = mb, g = gr,
                    state = \<lparr> th1 = pi / 2, w1 = a, th2 = pi / 2, w2 = b \<rparr> \<rparr> of
      (x1, y1, x2, y2) \<Rightarrow>
        \<bar>x1 - 1\<bar> \<le> 1 / 10 ^ 9 \<and> \<bar>y1 - 0\<bar> \<le> 1 / 10 ^ 9 \<and>
        \<bar>x2 - 2\<bar> \<le> 1 / 10 ^ 9 \<and> \<bar>y2 - 0\<bar> \<le> 1 / 10 ^ 9 \<and>
        x1 = 1 \<and> y1 = 0 \<and> x2 = 2 \<and> y2 = 0)"
  by (simp add: get_pos_def Let_def)

theorem get_pos_examples_witness:
  "get_pos ((DoublePendulum (Some 2) (Some 3) None None)
              \<lparr>state := \<lparr> th1 = 0, w1 = 4, th2 = 0, w2 = - 6 \<rparr>\<rparr>) = (0, - 2, 0, - 5) \<and>
   get_pos ((DoublePendulum None None None None)
              \<lparr>state := \<lparr> th1 = pi / 2, w1 = 4, th2 = pi / 2, w2 = - 6 \<rparr>\<rparr>) = (1, 0, 2, 0)"
  using get_pos_examples [where self = "DoublePendulum (Some 2) (Some 3) None None"
      and a = 4 and b = "- 6" and ma = 1 and mb = 1 and gr = "9.81"]
  by (auto simp add: DoublePendulum_def)

section \<open>Stepping\<close>

lemma step_value:
  assumes "odeint (derivs self) (state self) [0, h] = Inr rows" and "1 < length rows"
  shows "step odeint self h
           = Inr (self\<lparr>state := rows ! 1\<rparr>, get_pos (self\<lparr>state := rows ! 1\<rparr>))"
  using assms by (simp add: step_def Let_def)



text \<open>
  Claim C2. When the solver, called with \<^verbatim>\<open>derivs\<close>, the current state and the times
  \<open>[0, dt]\<close>, returns its rows, \<^verbatim>\<open>step(dt)\<close> makes the row for \<open>dt\<close> the whole new state,
  returns the positions that \<^verbatim>\<open>get_pos\<close> gives on the new engine, and leaves \<open>L1\<close>,
  \<open>L2\<close>, \<open>M1\<close>, \<open>M2\<close> and \<open>g\<close> as they were. Nothing is asked of \<open>dt\<close>, so it holds for
  every positive one.
\<close>

theorem step_replaces_state:
  assumes "odeint (derivs self) (state self) [0, h] = Inr rows" and "1 < length rows"
  shows "\<exists>self'. step odeint self h = Inr (self', get_pos self') \<and>
           state self' = rows ! 1 \<and>
           L1 self' = L1 self \<and> L2 self' = L2 self \<and>
           M1 self' = M1 self \<and> M2 self' = M2 self \<and> g self' = g self"
  using step_value [of odeint self h rows] assms by simp

theorem step_replaces_state_witness:
  "euler (derivs (DoublePendulum None None None None))
      (state (DoublePendulum None None None None)) [0, dt]
     = Inr [\<lparr> th1 = pi / 1.1, w1 = 0, th2 = pi / 1.1, w2 = 0 \<rparr>,
            \<lparr> th1 = pi / 1.1, w1 = - (dt * (9.81 * sin (pi / 1.1))),
              th2 = pi / 1.1, w2 = 0 \<rparr>] \<and>
   (1::nat) < length [\<lparr> th1 = pi / 1.1, w1 = 0, th2 = pi / 1.1, w2 = 0 \<rparr>,
            \<lparr> th1 = pi / 1.1, w1 = - (dt * (9.81 * sin (pi / 1.1))),
              th2 = pi / 1.1, w2 = 0 \<rparr>] \<and>
   (\<exists>self'. step euler (DoublePendulum None None None None) dt = Inr (self', get_pos self') \<and>
      state self' = \<lparr> th1 = pi / 1.1, w1 = - (dt * (9.81 * sin (pi / 1.1))),
              th2 = pi / 1.1, w2 = 0 \<rparr>)"
proof -
  have e: "euler (derivs (DoublePendulum None None None None))
      (state (DoublePendulum None None None None)) [0, dt]
     = Inr [\<lparr> th1 = pi / 1.1, w1 = 0, th2 = pi / 1.1, w2 = 0 \<rparr>,
            \<lparr> th1 = pi / 1.1, w1 = - (dt * (9.81 * sin (pi / 1.1))),
              th2 = pi / 1.1, w2 = 0 \<rparr>]"
    by (simp add: euler_def derivs_def den1_def den2_def py_div_def np_div_def
        DoublePendulum_def Let_def advance_def)
  show ?thesis
    using e step_replaces_state [of euler "DoublePendulum None None None None" dt
        "[\<lparr> th1 = pi / 1.1, w1 = 0, th2 = pi / 1.1, w2 = 0 \<rparr>,
            \<lparr> th1 = pi / 1.1, w1 = - (dt * (9.81 * sin (pi / 1.1))),
              th2 = pi / 1.1, w2 = 0 \<rparr>]"]
    by auto
qed






section \<open>The trail history\<close>

lemma append_history_points:
  assumes "length qs \<le> max_history"
  shows "append_history (map fst qs, map snd qs) p
           = Inr (map fst (drop (Suc (length qs) - max_history) (qs @ [p])),
                  map snd (drop (Suc (length qs) - max_history) (qs @ [p])))"
proof (cases "length qs = max_history")
  case True
  then have "Suc (length qs) - max_history = 1" by simp
  moreover have "pop0 (map fst qs @ [fst p]) = Inr (map fst (drop 1 (qs @ [p])))"
    by (cases qs) (simp_all add: pop0_def drop_Suc)
  moreover have "pop0 (map snd qs @ [snd p]) = Inr (map snd (drop 1 (qs @ [p])))"
    by (cases qs) (simp_all add: pop0_def drop_Suc)
  ultimately show ?thesis
    using True by (simp add: append_history_def Let_def)
next
  case False
  with assms have "length qs < max_history" by simp
  then show ?thesis
    by (simp add: append_history_def Let_def)
qed

lemma drop_keep_last:
  fixes qs :: "'a list"
  assumes "length qs \<le> n"
  shows "drop (length (drop (Suc (length qs) - n) (qs @ [p]) @ ps) - n)
              (drop (Suc (length qs) - n) (qs @ [p]) @ ps)
           = drop (length (qs @ p # ps) - n) (qs @ p # ps)"
proof (cases "length qs = n")
  case True
  show ?thesis
  proof (cases qs)
    case Nil
    then show ?thesis using True by simp
  next
    case (Cons q rest)
    then have n: "n = Suc (length rest)" using True by simp
    show ?thesis
      by (simp add: Cons n drop_Suc)
  qed
next
  case False
  with assms have "Suc (length qs) - n = 0" by simp
  then show ?thesis by simp
qed

lemma append_all_points:
  assumes "length qs \<le> max_history"
  shows "append_all (map fst qs, map snd qs) ps
           = Inr (map fst (drop (length (qs @ ps) - max_history) (qs @ ps)),
                  map snd (drop (length (qs @ ps) - max_history) (qs @ ps)))"
  using assms
proof (induction ps arbitrary: qs)
  case Nil
  then show ?case by simp
next
  case (Cons p ps)
  define qs' where "qs' = drop (Suc (length qs) - max_history) (qs @ [p])"
  have len: "length qs' \<le> max_history"
    using Cons.prems by (simp add: qs'_def)
  have "append_all (map fst qs, map snd qs) (p # ps) = append_all (map fst qs', map snd qs') ps"
    using append_history_points [OF Cons.prems, of p] by (simp add: qs'_def)
  also have "\<dots> = Inr (map fst (drop (length (qs' @ ps) - max_history) (qs' @ ps)),
                        map snd (drop (length (qs' @ ps) - max_history) (qs' @ ps)))"
    by (rule Cons.IH [OF len])
  also have "drop (length (qs' @ ps) - max_history) (qs' @ ps)
               = drop (length (qs @ p # ps) - max_history) (qs @ p # ps)"
    unfolding qs'_def by (rule drop_keep_last [OF Cons.prems])
  finally show ?case .
qed

lemma update_value:
  assumes "step odeint (sim a) dt = Inr (s', (x1, y1, x2, y2))"
    and "append_history (history_x a, history_y a) (x2, y2) = Inr (hx, hy)"
  shows "update odeint a = Inr \<lparr> sim = s', history_x = hx, history_y = hy \<rparr>"
  using assms by (simp add: update_def)

text \<open>
  Claim C7. Starting from the empty trail, after more than 200 points have been
  appended the two history lists hold 200 entries each, and together they are the 200
  points appended last, in the order of their appending.
\<close>

theorem trail_keeps_last_200:
  assumes "max_history < length pts"
  shows "\<exists>hx hy. append_all ([], []) pts = Inr (hx, hy) \<and>
           length hx = 200 \<and> length hy = 200 \<and>
           zip hx hy = drop (length pts - 200) pts"
proof -
  define r where "r = drop (length pts - max_history) pts"
  have "append_all (map fst [], map snd []) pts = Inr (map fst r, map snd r)"
    using append_all_points [of "[]" pts] by (simp add: r_def)
  then have a: "append_all ([], []) pts = Inr (map fst r, map snd r)" by simp
  have l: "length r = 200"
    using assms by (simp add: r_def max_history_def)
  have z: "zip (map fst r) (map snd r) = r"
    by (simp add: zip_map_fst_snd)
  show ?thesis
    using a l z by (simp add: r_def max_history_def)
qed

theorem trail_keeps_last_200_witness:
  "max_history < length (map (\<lambda>i. (real i, - real i)) [0 ..< 203]) \<and>
   (\<exists>hx hy. append_all ([], []) (map (\<lambda>i. (real i, - real i)) [0 ..< 203]) = Inr (hx, hy) \<and>
      length hx = 200 \<and> length hy = 200 \<and>
      zip hx hy = map (\<lambda>i. (real i, - real i)) [3 ..< 203])"
proof -
  have d: "drop 3 (map (\<lambda>i. (real i, - real i)) [0 ..< 203])
             = map (\<lambda>i. (real i, - real i)) [3 ..< 203]"
    by (simp add: drop_map)
  show ?thesis
    using trail_keeps_last_200 [of "map (\<lambda>i. (real i, - real i)) [0 ..< 203]"] d
    by (simp add: max_history_def)
qed

section \<open>Rounding to the nearest double\<close>

lemma floor_log2_eq:
  assumes "2 powi e \<le> \<bar>x\<bar>" and "\<bar>x\<bar> < 2 powi (e + 1)"
  shows "\<lfloor>log 2 \<bar>x\<bar>\<rfloor> = e"
proof -
  have p: "0 < \<bar>x\<bar>" using assms(1) by (smt (verit) zero_less_power_int)
  have a: "(2::real) powr (of_int e) = 2 powi e"
    by (simp add: powr_real_of_int')
  have "(2::real) powr (of_int (e + 1)) = 2 powi (e + 1)"
    by (rule powr_real_of_int') simp_all
  then have b: "(2::real) powr (of_int e + 1) = 2 powi (e + 1)"
    by simp
  show ?thesis
    using assms floor_log_eq_powr_iff [of "\<bar>x\<bar>" 2 e] p a b by simp
qed

lemma quantum_pos: "0 < quantum x"
  by (simp add: quantum_def)

lemma rne_of_int: "rne (of_int n) = n"
  by (simp add: rne_def)

lemma rne_mono:
  assumes "r \<le> s"
  shows "rne r \<le> rne s"
proof -
  have fl: "\<lfloor>r\<rfloor> \<le> \<lfloor>s\<rfloor>" using assms by (rule floor_mono)
  have br: "\<lfloor>r\<rfloor> \<le> rne r" "rne r \<le> \<lfloor>r\<rfloor> + 1"
    by (simp_all add: rne_def Let_def)
  have bs: "\<lfloor>s\<rfloor> \<le> rne s" "rne s \<le> \<lfloor>s\<rfloor> + 1"
    by (simp_all add: rne_def Let_def)
  show ?thesis
  proof (cases "\<lfloor>r\<rfloor> = \<lfloor>s\<rfloor>")
    case False
    with fl have "\<lfloor>r\<rfloor> + 1 \<le> \<lfloor>s\<rfloor>" by simp
    with br bs show ?thesis by linarith
  next
    case True
    then have "r - of_int \<lfloor>r\<rfloor> \<le> s - of_int \<lfloor>s\<rfloor>" using assms by simp
    then show ?thesis
      using True by (auto simp add: rne_def Let_def)
  qed
qed

lemma rne_le_int: "r \<le> of_int n \<Longrightarrow> rne r \<le> n"
  using rne_mono [of r "of_int n"] by (simp add: rne_of_int)

lemma rne_ge_int: "of_int n \<le> r \<Longrightarrow> n \<le> rne r"
  using rne_mono [of "of_int n" r] by (simp add: rne_of_int)

lemma rne_minus: "rne (- r) = - rne r"
proof (cases "r = of_int \<lfloor>r\<rfloor>")
  case True
  then obtain n where "r = of_int n" ..
  then have "- r = of_int (- n)" by simp
  then show ?thesis
    using \<open>r = of_int n\<close> by (simp only: rne_of_int)
next
  case False
  then have r: "of_int \<lfloor>r\<rfloor> < r" "r < of_int \<lfloor>r\<rfloor> + 1"
    by linarith+
  have f: "\<lfloor>- r\<rfloor> = - \<lfloor>r\<rfloor> - 1"
  proof (rule floor_unique)
    have e: "real_of_int (- \<lfloor>r\<rfloor> - 1) = - real_of_int \<lfloor>r\<rfloor> - 1" by simp
    show "of_int (- \<lfloor>r\<rfloor> - 1) \<le> - r" unfolding e using r(2) by linarith
    show "- r < of_int (- \<lfloor>r\<rfloor> - 1) + 1" unfolding e using r(1) by linarith
  qed
  show ?thesis
    using r by (auto simp add: rne_def Let_def f)
qed

lemma rne_eqI:
  assumes "\<bar>r - of_int n\<bar> < 1 / 2"
  shows "rne r = n"
proof -
  have "\<lfloor>r\<rfloor> = n \<or> \<lfloor>r\<rfloor> = n - 1"
    using assms by (auto simp add: floor_eq_iff abs_less_iff)
  then show ?thesis
    using assms by (auto simp add: rne_def Let_def abs_less_iff)
qed

lemma round64_0: "round64 0 = 0"
  by (simp add: round64_def)

lemma quantum_minus: "quantum (- x) = quantum x"
  by (simp add: quantum_def)

lemma round64_minus: "round64 (- x) = - round64 x"
  by (simp add: round64_def quantum_minus rne_minus)

lemma round64_nonneg: "0 \<le> x \<Longrightarrow> 0 \<le> round64 x"
proof -
  assume "0 \<le> x"
  then have "of_int 0 \<le> x / quantum x" using quantum_pos [of x] by simp
  then have "0 \<le> rne (x / quantum x)" by (rule rne_ge_int)
  then show ?thesis using quantum_pos [of x] by (simp add: round64_def)
qed

lemma round64_nonpos: "x \<le> 0 \<Longrightarrow> round64 x \<le> 0"
  using round64_nonneg [of "- x"] by (simp add: round64_minus)

lemma binade:
  assumes "x \<noteq> 0"
  shows "2 powi \<lfloor>log 2 \<bar>x\<bar>\<rfloor> \<le> \<bar>x\<bar>" and "\<bar>x\<bar> < 2 powi (\<lfloor>log 2 \<bar>x\<bar>\<rfloor> + 1)"
proof -
  define e where "e = \<lfloor>log 2 \<bar>x\<bar>\<rfloor>"
  have p: "0 < \<bar>x\<bar>" using assms by simp
  have a: "(2::real) powr (of_int e) = 2 powi e"
    by (simp add: powr_real_of_int')
  have "(2::real) powr (of_int (e + 1)) = 2 powi (e + 1)"
    by (rule powr_real_of_int') simp_all
  then have b: "(2::real) powr (of_int e + 1) = 2 powi (e + 1)"
    by simp
  have "2 powr (of_int e) \<le> \<bar>x\<bar> \<and> \<bar>x\<bar> < 2 powr (of_int e + 1)"
    using floor_log_eq_powr_iff [of "\<bar>x\<bar>" 2 e] p by (simp add: e_def)
  then have c: "2 powi e \<le> \<bar>x\<bar> \<and> \<bar>x\<bar> < 2 powi (e + 1)"
    unfolding a b .
  show "2 powi \<lfloor>log 2 \<bar>x\<bar>\<rfloor> \<le> \<bar>x\<bar>"
    using c unfolding e_def by (rule conjunct1)
  show "\<bar>x\<bar> < 2 powi (\<lfloor>log 2 \<bar>x\<bar>\<rfloor> + 1)"
    using c unfolding e_def by (rule conjunct2)
qed

lemma powi_of_int: "0 \<le> m \<Longrightarrow> (2::real) powi m = of_int (2 ^ nat m)"
  by (simp add: power_int_def)

lemma round64_mono_pos:
  assumes "0 < x" and "x \<le> y"
  shows "round64 x \<le> round64 y"
proof -
  define ex where "ex = \<lfloor>log 2 \<bar>x\<bar>\<rfloor>"
  define ey where "ey = \<lfloor>log 2 \<bar>y\<bar>\<rfloor>"
  define Ex where "Ex = max ex (- 1022)"
  define Ey where "Ey = max ey (- 1022)"
  have y: "0 < y" using assms by simp
  have qx: "quantum x = 2 powi (Ex - 52)" by (simp add: quantum_def Ex_def ex_def)
  have qy: "quantum y = 2 powi (Ey - 52)" by (simp add: quantum_def Ey_def ey_def)
  have "log 2 x \<le> log 2 y" using assms by simp
  then have "ex \<le> ey" using assms y by (simp add: ex_def ey_def floor_mono)
  then have le: "Ex \<le> Ey" by (simp add: Ex_def Ey_def)
  have rx: "round64 x = of_int (rne (x / quantum x)) * quantum x"
    using assms by (simp add: round64_def)
  have ry: "round64 y = of_int (rne (y / quantum y)) * quantum y"
    using y by (simp add: round64_def)
  show ?thesis
  proof (cases "Ex = Ey")
    case True
    then have q: "quantum x = quantum y" by (simp add: qx qy)
    have "x / quantum y \<le> y / quantum y"
      using assms quantum_pos [of y] by (simp add: divide_right_mono)
    then have "rne (x / quantum y) \<le> rne (y / quantum y)" by (rule rne_mono)
    then have "of_int (rne (x / quantum y)) * quantum y \<le> of_int (rne (y / quantum y)) * quantum y"
      using quantum_pos [of y] by simp
    then show ?thesis by (simp add: rx ry q)
  next
    case False
    with le have lt: "Ex < Ey" by simp
    then have Eyey: "Ey = ey" unfolding Ey_def Ex_def by linarith
    define B :: real where "B = 2 powi Ey"
    have By: "B \<le> y"
      using binade(1) [of y] y by (simp add: B_def Eyey ey_def)
    have "x < 2 powi (ex + 1)"
      using binade(2) [of x] assms by (simp add: ex_def)
    also have "\<dots> \<le> 2 powi (Ex + 1)"
      by (rule power_int_increasing) (simp_all add: Ex_def)
    also have "\<dots> \<le> B"
      unfolding B_def using lt by (intro power_int_increasing) simp_all
    finally have xB: "x < B" .
    define N :: int where "N = 2 ^ nat (Ey - Ex + 52)"
    have "B / quantum x = 2 powi (Ey - (Ex - 52))"
      by (simp add: B_def qx power_int_diff)
    also have "\<dots> = of_int N"
      using lt by (simp add: N_def powi_of_int algebra_simps)
    finally have BN: "B / quantum x = of_int N" .
    have "x / quantum x \<le> B / quantum x"
      using xB quantum_pos [of x] by (simp add: divide_right_mono)
    then have "rne (x / quantum x) \<le> N" unfolding BN by (rule rne_le_int)
    then have "of_int (rne (x / quantum x)) * quantum x \<le> of_int N * quantum x"
      using quantum_pos [of x] by simp
    also have "of_int N * quantum x = B"
      using BN quantum_pos [of x] by (simp add: field_simps)
    finally have a: "round64 x \<le> B" by (simp add: rx)
    have "B / quantum y = 2 powi (Ey - (Ey - 52))"
      by (simp add: B_def qy power_int_diff)
    then have BM: "B / quantum y = of_int (2 ^ 52)" by simp
    have "B / quantum y \<le> y / quantum y"
      using By quantum_pos [of y] by (simp add: divide_right_mono)
    then have "2 ^ 52 \<le> rne (y / quantum y)" unfolding BM by (rule rne_ge_int)
    then have "of_int (2 ^ 52) * quantum y \<le> of_int (rne (y / quantum y)) * quantum y"
      using quantum_pos [of y] by (simp only: mult_le_cancel_right_pos of_int_le_iff)
    moreover have "of_int (2 ^ 52) * quantum y = B"
      using BM quantum_pos [of y] by (simp add: field_simps)
    ultimately have b: "B \<le> round64 y" by (simp add: ry)
    from a b show ?thesis by linarith
  qed
qed

lemma round64_mono:
  assumes "x \<le> y"
  shows "round64 x \<le> round64 y"
proof -
  consider "0 < x" | "x \<le> 0" "0 \<le> y" | "y < 0" by linarith
  then show ?thesis
  proof cases
    case 1
    then show ?thesis using assms by (rule round64_mono_pos)
  next
    case 2
    then show ?thesis
      using round64_nonpos [of x] round64_nonneg [of y] by linarith
  next
    case 3
    then have "0 < - y" "- y \<le> - x" using assms by simp_all
    then have "round64 (- y) \<le> round64 (- x)" by (rule round64_mono_pos)
    then show ?thesis by (simp add: round64_minus)
  qed
qed

lemma quantum_eq:
  assumes "2 powi e \<le> \<bar>x\<bar>" and "\<bar>x\<bar> < 2 powi (e + 1)"
  shows "quantum x = 2 powi (max e (- 1022) - 52)"
  using floor_log2_eq [OF assms] by (simp add: quantum_def)

lemma round64_in_binade:
  assumes "2 powi e \<le> \<bar>x\<bar>" and "\<bar>x\<bar> < 2 powi (e + 1)"
  shows "round64 x = of_int (rne (x / 2 powi (max e (- 1022) - 52)))
                       * 2 powi (max e (- 1022) - 52)"
proof -
  have "x \<noteq> 0" using assms(1) by (smt (verit) zero_less_power_int abs_zero)
  then show ?thesis
    by (simp add: round64_def quantum_eq [OF assms])
qed

lemma round64_near:
  assumes "2 powi e \<le> \<bar>x\<bar>" and "\<bar>x\<bar> < 2 powi (e + 1)"
    and "\<bar>x / 2 powi (max e (- 1022) - 52) - of_int n\<bar> < 1 / 2"
  shows "round64 x = of_int n * 2 powi (max e (- 1022) - 52)"
proof -
  have "x \<noteq> 0" using assms(1) by (smt (verit) zero_less_power_int abs_zero)
  then show ?thesis
    using rne_eqI [OF assms(3)] by (simp add: round64_def quantum_eq [OF assms(1,2)])
qed

lemma round64_exact:
  assumes "2 powi e \<le> \<bar>x\<bar>" and "\<bar>x\<bar> < 2 powi (e + 1)"
    and "x = of_int n * 2 powi (max e (- 1022) - 52)"
  shows "round64 x = x"
proof -
  have "x / 2 powi (max e (- 1022) - 52) = of_int n"
    using assms(3) by simp
  then have "\<bar>x / 2 powi (max e (- 1022) - 52) - of_int n\<bar> < 1 / 2" by simp
  from round64_near [OF assms(1,2) this] show ?thesis using assms(3) by simp
qed


lemma round64_2: "round64 2 = 2"
  by (rule round64_exact [where e = 1 and n = "2 ^ 52"]) simp_all


lemma round64_double:
  assumes "round64 x = x"
  shows "round64 (2 * x) = 2 * x"
proof (cases "x = 0")
  case True
  then show ?thesis by (simp add: round64_0)
next
  case False
  define e where "e = \<lfloor>log 2 \<bar>x\<bar>\<rfloor>"
  define n where "n = rne (x / quantum x)"
  have b: "2 powi e \<le> \<bar>x\<bar>" "\<bar>x\<bar> < 2 powi (e + 1)"
    using binade [OF False] by (simp_all add: e_def)
  have q: "quantum x = 2 powi (max e (- 1022) - 52)"
    by (rule quantum_eq [OF b])
  have x: "x = of_int n * 2 powi (max e (- 1022) - 52)"
    using assms False by (simp add: round64_def n_def q)
  have b2: "2 powi (e + 1) \<le> \<bar>2 * x\<bar>" "\<bar>2 * x\<bar> < 2 powi (e + 1 + 1)"
    using b by (simp_all add: power_int_add abs_mult)
  show ?thesis
  proof (cases "- 1022 \<le> e")
    case True
    then have "2 * x = of_int n * 2 powi (max (e + 1) (- 1022) - 52)"
      using x by (simp add: max_def power_int_add power_int_diff)
    from round64_exact [OF b2 this] show ?thesis .
  next
    case False
    then have "2 * x = of_int (2 * n) * 2 powi (max (e + 1) (- 1022) - 52)"
      using x by (simp add: max_def)
    from round64_exact [OF b2 this] show ?thesis .
  qed
qed

section \<open>Operations on doubles\<close>

lemma finish_fin:
  assumes "\<bar>round64 r\<bar> < 2 ^ 1024"
  shows "is_finite (finish r)" and "real_of (finish r) = round64 r"
  using assms by (simp_all add: finish_def Let_def zero_of_def)

lemma zero_of_fin: "is_finite (zero_of s)" "real_of (zero_of s) = 0"
  by (simp_all add: zero_of_def)

lemma not_fin_cases: "\<not> is_finite a \<longleftrightarrow> a = PInf \<or> a = NInf \<or> a = NaN"
  by (cases a) simp_all

lemma fin_not_special:
  assumes "is_finite a"
  shows "a \<noteq> NaN" and "\<not> is_inf a"
  using assms by (cases a; simp)+


lemma add64_fin:
  assumes "is_finite a" and "is_finite b"
    and "\<bar>round64 (real_of a + real_of b)\<bar> < 2 ^ 1024"
  shows "is_finite (add64 a b)" and "real_of (add64 a b) = round64 (real_of a + real_of b)"
  using assms fin_not_special [of a] fin_not_special [of b]
  by (simp_all add: add64_def Let_def zero_of_fin finish_fin round64_0)


lemma mul64_fin:
  assumes "is_finite a" and "is_finite b"
    and "\<bar>round64 (real_of a * real_of b)\<bar> < 2 ^ 1024"
  shows "is_finite (mul64 a b)" and "real_of (mul64 a b) = round64 (real_of a * real_of b)"
proof -
  have s: "a \<noteq> NaN" "b \<noteq> NaN" "\<not> is_inf a" "\<not> is_inf b"
    using assms fin_not_special by blast+
  show "is_finite (mul64 a b)"
    using s assms(3) by (simp add: mul64_def Let_def zero_of_fin finish_fin del: mult_eq_0_iff)
  show "real_of (mul64 a b) = round64 (real_of a * real_of b)"
    using s assms(3)
    by (auto simp add: mul64_def Let_def zero_of_fin finish_fin round64_0 simp del: mult_eq_0_iff)
qed

lemma div64_fin:
  assumes "is_finite a" and "is_finite b" and "\<not> is_zero b"
    and "\<bar>round64 (real_of a / real_of b)\<bar> < 2 ^ 1024"
  shows "is_finite (div64 a b)" and "real_of (div64 a b) = round64 (real_of a / real_of b)"
proof -
  have s: "a \<noteq> NaN" "b \<noteq> NaN" "\<not> is_inf a" "\<not> is_inf b"
    using assms fin_not_special by blast+
  show "is_finite (div64 a b)"
    using s assms(3,4)
    by (simp add: div64_def Let_def zero_of_fin finish_fin del: divide_eq_0_iff)
  show "real_of (div64 a b) = round64 (real_of a / real_of b)"
    using s assms(3,4)
    by (auto simp add: div64_def Let_def zero_of_fin finish_fin round64_0 simp del: divide_eq_0_iff)
qed

lemma inf_of_not_fin: "\<not> is_finite (inf_of s)"
  by (simp add: inf_of_def)

lemma neg64_not_fin: "\<not> is_finite a \<Longrightarrow> \<not> is_finite (neg64 a)"
  by (cases a) simp_all

lemma add64_not_fin:
  assumes "\<not> is_finite a \<or> \<not> is_finite b"
  shows "\<not> is_finite (add64 a b)"
  using assms by (cases a; cases b; simp add: add64_def)

lemma sub64_not_fin:
  assumes "\<not> is_finite a \<or> \<not> is_finite b"
  shows "\<not> is_finite (sub64 a b)"
  using assms neg64_not_fin [of b] add64_not_fin [of a "neg64 b"] by (auto simp add: sub64_def)



lemma div64_not_fin:
  assumes "\<not> is_finite a"
  shows "\<not> is_finite (div64 a b)"
  using assms by (cases a; cases b; simp add: div64_def inf_of_def)

lemma np_sin_not_fin: "\<not> is_finite a \<Longrightarrow> np_sin lib a = NaN"
  by (cases a) (simp_all add: np_sin_def)

lemma np_cos_not_fin: "\<not> is_finite a \<Longrightarrow> np_cos lib a = NaN"
  by (cases a) (simp_all add: np_cos_def)

lemma mul64_NaN: "mul64 a NaN = NaN" "mul64 NaN a = NaN"
  by (simp_all add: mul64_def)

lemma add64_NaN: "add64 a NaN = NaN" "add64 NaN a = NaN"
  by (simp_all add: add64_def)

lemma sub64_NaN: "sub64 a NaN = NaN" "sub64 NaN a = NaN"
  by (simp_all add: sub64_def add64_def)

lemma finish_double:
  assumes "round64 r = r" and "r \<noteq> 0" and "\<bar>r\<bar> < 2 ^ 1024"
  shows "finish r = Fin r"
  using assms by (simp add: finish_def Let_def)

section \<open>The derivative function in binary64\<close>





lemma get_pos64_th2_not_fin:
  assumes "\<not> is_finite (th2_64 (state_64 self))"
  shows "fst (snd (snd (get_pos64 lib self))) = NaN \<and> snd (snd (snd (get_pos64 lib self))) = NaN"
  using assms
  by (simp add: get_pos64_def Let_def np_sin_not_fin np_cos_not_fin mul64_NaN add64_NaN sub64_NaN)










lemma add64_Fin:
  "add64 (Fin x) (Fin y) = (if x + y = 0 then Fin 0 else finish (x + y))"
  by (auto simp add: add64_def Let_def zero_of_def)

lemma mul64_Fin:
  "mul64 (Fin x) (Fin y) = (if x * y = 0 then zero_of ((x < 0) \<noteq> (y < 0)) else finish (x * y))"
  by (simp add: mul64_def Let_def)




lemma add64_Fin_NegZero:
  "add64 (Fin x) NegZero = (if x = 0 then Fin 0 else finish x)"
  "add64 NegZero (Fin x) = (if x = 0 then Fin 0 else finish x)"
  "add64 NegZero NegZero = NegZero"
  by (auto simp add: add64_def Let_def zero_of_def)








lemma finish_2: "finish 2 = Fin 2"
  by (rule finish_double) (simp_all add: round64_2)








section \<open>The denominators in binary64\<close>






lemma round64_ge_m2: "- 2 \<le> x \<Longrightarrow> - 2 \<le> round64 x"
  using round64_mono [of "- 2" x] by (simp add: round64_2 round64_minus)



lemma np_sin_fin:
  assumes "libm_in_range lib" and "is_finite a"
  shows "is_finite (np_sin lib a) \<and> \<bar>real_of (np_sin lib a)\<bar> \<le> 1"
  using assms by (cases a) (simp_all add: np_sin_def libm_in_range_def)













section \<open>Perturbation in binary64\<close>

lemma uniform64_within:
  assumes "0 \<le> s" and "round64 s = s" and "2 * s < 2 ^ 1024" and "0 \<le> u" and "u \<le> 1"
  shows "is_finite (uniform64 (neg64 (Fin s)) (Fin s) (Fin u))"
    and "\<bar>real_of (uniform64 (neg64 (Fin s)) (Fin s) (Fin u))\<bar> \<le> s"
proof -
  have n: "is_finite (neg64 (Fin s))" "real_of (neg64 (Fin s)) = - s"
    by simp_all
  have nn: "is_finite (neg64 (neg64 (Fin s)))" "real_of (neg64 (neg64 (Fin s))) = s"
    by simp_all
  have r2: "round64 (s + s) = 2 * s"
    using round64_double [OF assms(2)] by simp
  have w: "is_finite (sub64 (Fin s) (neg64 (Fin s)))"
    "real_of (sub64 (Fin s) (neg64 (Fin s))) = 2 * s"
    using add64_fin [of "Fin s" "neg64 (neg64 (Fin s))"] nn r2 assms(1,3)
    by (simp_all add: sub64_def)
  define t where "t = round64 (2 * s * u)"
  have "0 \<le> 2 * s * u" using assms(1,4) by simp
  moreover have "2 * s * u \<le> 2 * s * 1"
    using assms(1,5) by (intro mult_left_mono) simp_all
  ultimately have t: "0 \<le> t" "t \<le> 2 * s"
    using round64_nonneg [of "2 * s * u"] round64_mono [of "2 * s * u" "2 * s"] r2
    by (simp_all add: t_def)
  have m: "is_finite (mul64 (sub64 (Fin s) (neg64 (Fin s))) (Fin u))"
    "real_of (mul64 (sub64 (Fin s) (neg64 (Fin s))) (Fin u)) = t"
    using mul64_fin [of "sub64 (Fin s) (neg64 (Fin s))" "Fin u"] w t assms(3)
    by (simp_all add: t_def)
  define r where "r = round64 (- s + t)"
  have "round64 (- s) \<le> r" "r \<le> round64 s"
    using t round64_mono [of "- s" "- s + t"] round64_mono [of "- s + t" s]
    by (simp_all add: r_def)
  then have r: "- s \<le> r" "r \<le> s"
    using assms(2) by (simp_all add: round64_minus)
  then have "\<bar>r\<bar> < 2 ^ 1024" using assms(1,3) by (simp add: abs_less_iff)
  then have a: "is_finite (add64 (neg64 (Fin s)) (mul64 (sub64 (Fin s) (neg64 (Fin s))) (Fin u)))"
    "real_of (add64 (neg64 (Fin s)) (mul64 (sub64 (Fin s) (neg64 (Fin s))) (Fin u))) = r"
    using add64_fin [of "neg64 (Fin s)" "mul64 (sub64 (Fin s) (neg64 (Fin s))) (Fin u)"] n m
    by (simp_all add: r_def)
  show "is_finite (uniform64 (neg64 (Fin s)) (Fin s) (Fin u))"
    using a(1) by (simp add: uniform64_def)
  show "\<bar>real_of (uniform64 (neg64 (Fin s)) (Fin s) (Fin u))\<bar> \<le> s"
    using a(2) r by (simp add: uniform64_def abs_le_iff)
qed

lemma add64_between:
  assumes "is_finite w" and "is_finite r" and "\<bar>real_of r\<bar> \<le> s"
    and "\<bar>round64 (real_of w - s)\<bar> < 2 ^ 1024" and "\<bar>round64 (real_of w + s)\<bar> < 2 ^ 1024"
  shows "is_finite (add64 w r)"
    and "round64 (real_of w - s) \<le> real_of (add64 w r)"
    and "real_of (add64 w r) \<le> round64 (real_of w + s)"
proof -
  have lo: "round64 (real_of w - s) \<le> round64 (real_of w + real_of r)"
    using assms(3) by (intro round64_mono) (simp add: abs_le_iff)
  have hi: "round64 (real_of w + real_of r) \<le> round64 (real_of w + s)"
    using assms(3) by (intro round64_mono) (simp add: abs_le_iff)
  have "\<bar>round64 (real_of w + real_of r)\<bar> < 2 ^ 1024"
    using lo hi assms(4,5) by (simp add: abs_less_iff)
  from add64_fin [OF assms(1,2) this] lo hi
  show "is_finite (add64 w r)"
    and "round64 (real_of w - s) \<le> real_of (add64 w r)"
    and "real_of (add64 w r) \<le> round64 (real_of w + s)"
    by simp_all
qed

lemma uniform64_zero:
  assumes "0 \<le> u"
  shows "uniform64 (neg64 (Fin 0)) (Fin 0) (Fin u) = Fin 0"
  using assms by (simp add: uniform64_def sub64_def add64_Fin mul64_Fin add64_Fin_NegZero zero_of_def)

lemma add64_Fin_zero:
  assumes "round64 x = x" and "\<bar>x\<bar> < 2 ^ 1024"
  shows "add64 (Fin x) (Fin 0) = Fin x"
  using assms finish_double [of x] by (simp add: add64_Fin)

lemma finish_exact:
  assumes "2 powi e \<le> \<bar>x\<bar>" and "\<bar>x\<bar> < 2 powi (e + 1)"
    and "x = of_int n * 2 powi (max e (- 1022) - 52)" and "\<bar>x\<bar> < 2 ^ 1024"
  shows "finish x = Fin x"
proof -
  have "x \<noteq> 0" using assms(1) by (smt (verit) zero_less_power_int abs_zero)
  then show ?thesis
    using round64_exact [OF assms(1-3)] assms(4) by (intro finish_double)
qed

lemma finish_small_values:
  "finish 3 = Fin 3" "finish 4 = Fin 4" "finish 6 = Fin 6" "finish 8 = Fin 8"
  "finish (- 4) = Fin (- 4)" "finish (21 / 4) = Fin (21 / 4)" "finish (9 / 4) = Fin (9 / 4)"
proof -
  show "finish 3 = Fin 3"
    by (rule finish_exact [where e = 1 and n = "3 * 2 ^ 51"]) simp_all
  show "finish 4 = Fin 4"
    by (rule finish_exact [where e = 2 and n = "2 ^ 52"]) simp_all
  show "finish 6 = Fin 6"
    by (rule finish_exact [where e = 2 and n = "3 * 2 ^ 51"]) simp_all
  show "finish 8 = Fin 8"
    by (rule finish_exact [where e = 3 and n = "2 ^ 52"]) simp_all
  show "finish (- 4) = Fin (- 4)"
    by (rule finish_exact [where e = 2 and n = "- (2 ^ 52)"]) simp_all
  show "finish (21 / 4) = Fin (21 / 4)"
    by (rule finish_exact [where e = 2 and n = "21 * 2 ^ 48"]) simp_all
  show "finish (9 / 4) = Fin (9 / 4)"
    by (rule finish_exact [where e = 1 and n = "9 * 2 ^ 49"]) simp_all
qed

lemma round64_beyond_2p54: "round64 (2 ^ 54 + 9 / 4) = 2 ^ 54 + 4"
  using round64_in_binade [of 54 "2 ^ 54 + 9 / 4"] by (simp add: rne_def)

lemma finish_beyond_2p54: "finish (72057594037927945 / 4) = Fin 18014398509481988"
  using round64_beyond_2p54 by (simp add: finish_def Let_def)

text \<open>
  Claim C4 says that \<^verbatim>\<open>perturb(s)\<close> changes \<open>\<omega>1\<close> and \<open>\<omega>2\<close> by at most \<open>s\<close>, in every
  state. In binary64 the state with \<open>\<omega>1 = 2\<^sup>5\<^sup>4\<close> refutes it: with \<open>s = 3\<close> and the sample
  \<open>7/8\<close> the value drawn is \<open>2.25\<close>, and \<open>2\<^sup>5\<^sup>4 + 2.25\<close> rounds to \<open>2\<^sup>5\<^sup>4 + 4\<close>: a change of 4.
\<close>

theorem perturb64_exceeds_strength_counterexample:
  "w1_64 (state_64 (fst (perturb64 (engine64_of 1 1 1 1 spinning64) (Some (Fin 3))
                           (Fin (7 / 8)) (Fin (1 / 2)))))
     = Fin (2 ^ 54 + 4) \<and>
   w1_64 (state_64 (engine64_of 1 1 1 1 spinning64)) = Fin (2 ^ 54) \<and>
   \<not> \<bar>(2 ^ 54 + 4) - 2 ^ 54\<bar> \<le> (3::real)"
  by (simp add: perturb64_def uniform64_def engine64_of_def spinning64_def sub64_def
      add64_Fin mul64_Fin finish_small_values finish_beyond_2p54)

text \<open>
  Claim C4, as the code has it. For a strength \<open>s \<ge> 0\<close> (a double whose twofold does not
  overflow) and two samples in \<open>[0, 1)\<close>, \<^verbatim>\<open>perturb(s)\<close> draws two values, each from its own
  sample and each within \<open>[-s, s]\<close>, and stores \<open>\<omega>1\<close> plus the first and \<open>\<omega>2\<close> plus the
  second, each sum rounded to a double; it changes neither angle nor any parameter. A
  finite velocity therefore ends between the doubles nearest to \<open>\<omega> - s\<close> and to
  \<open>\<omega> + s\<close>, where these are finite. \<^verbatim>\<open>perturb(0)\<close> leaves a state with finite velocities as
  it is. All of this holds in every such state, so at every call of a repetition.
\<close>

theorem perturb64_adds_within_strength:
  assumes "0 \<le> s" and "round64 s = s" and "2 * s < 2 ^ 1024"
    and "0 \<le> u1" and "u1 < 1" and "0 \<le> u2" and "u2 < 1"
  shows "(let self' = fst (perturb64 self (Some (Fin s)) (Fin u1) (Fin u2));
              r1 = uniform64 (neg64 (Fin s)) (Fin s) (Fin u1);
              r2 = uniform64 (neg64 (Fin s)) (Fin s) (Fin u2)
          in is_finite r1 \<and> \<bar>real_of r1\<bar> \<le> s \<and> is_finite r2 \<and> \<bar>real_of r2\<bar> \<le> s \<and>
             w1_64 (state_64 self') = add64 (w1_64 (state_64 self)) r1 \<and>
             w2_64 (state_64 self') = add64 (w2_64 (state_64 self)) r2 \<and>
             th1_64 (state_64 self') = th1_64 (state_64 self) \<and>
             th2_64 (state_64 self') = th2_64 (state_64 self) \<and>
             L1_64 self' = L1_64 self \<and> L2_64 self' = L2_64 self \<and>
             M1_64 self' = M1_64 self \<and> M2_64 self' = M2_64 self \<and> g_64 self' = g_64 self \<and>
             (is_finite (w1_64 (state_64 self)) \<and>
              \<bar>round64 (real_of (w1_64 (state_64 self)) - s)\<bar> < 2 ^ 1024 \<and>
              \<bar>round64 (real_of (w1_64 (state_64 self)) + s)\<bar> < 2 ^ 1024 \<longrightarrow>
                is_finite (w1_64 (state_64 self')) \<and>
                round64 (real_of (w1_64 (state_64 self)) - s) \<le> real_of (w1_64 (state_64 self')) \<and>
                real_of (w1_64 (state_64 self')) \<le> round64 (real_of (w1_64 (state_64 self)) + s)) \<and>
             (is_finite (w2_64 (state_64 self)) \<and>
              \<bar>round64 (real_of (w2_64 (state_64 self)) - s)\<bar> < 2 ^ 1024 \<and>
              \<bar>round64 (real_of (w2_64 (state_64 self)) + s)\<bar> < 2 ^ 1024 \<longrightarrow>
                is_finite (w2_64 (state_64 self')) \<and>
                round64 (real_of (w2_64 (state_64 self)) - s) \<le> real_of (w2_64 (state_64 self')) \<and>
                real_of (w2_64 (state_64 self')) \<le> round64 (real_of (w2_64 (state_64 self)) + s))) \<and>
         (round64 x1 = x1 \<and> \<bar>x1\<bar> < 2 ^ 1024 \<and> round64 x2 = x2 \<and> \<bar>x2\<bar> < 2 ^ 1024 \<longrightarrow>
            state_64 (fst (perturb64
                (self\<lparr>state_64 := \<lparr> th1_64 = a1, w1_64 = Fin x1, th2_64 = a2, w2_64 = Fin x2 \<rparr>\<rparr>)
                (Some (Fin 0)) (Fin u1) (Fin u2)))
              = \<lparr> th1_64 = a1, w1_64 = Fin x1, th2_64 = a2, w2_64 = Fin x2 \<rparr>)"
proof -
  define r1 where "r1 = uniform64 (neg64 (Fin s)) (Fin s) (Fin u1)"
  define r2 where "r2 = uniform64 (neg64 (Fin s)) (Fin s) (Fin u2)"
  define self' where "self' = fst (perturb64 self (Some (Fin s)) (Fin u1) (Fin u2))"
  have b1: "is_finite r1" "\<bar>real_of r1\<bar> \<le> s"
    using uniform64_within [OF assms(1,2,3,4), of ] assms(5) by (simp_all add: r1_def)
  have b2: "is_finite r2" "\<bar>real_of r2\<bar> \<le> s"
    using uniform64_within [OF assms(1,2,3,6)] assms(7) by (simp_all add: r2_def)
  have st: "w1_64 (state_64 self') = add64 (w1_64 (state_64 self)) r1"
    "w2_64 (state_64 self') = add64 (w2_64 (state_64 self)) r2"
    "th1_64 (state_64 self') = th1_64 (state_64 self)"
    "th2_64 (state_64 self') = th2_64 (state_64 self)"
    "L1_64 self' = L1_64 self" "L2_64 self' = L2_64 self"
    "M1_64 self' = M1_64 self" "M2_64 self' = M2_64 self" "g_64 self' = g_64 self"
    by (simp_all add: self'_def perturb64_def Let_def r1_def r2_def)
  have c1: "is_finite (w1_64 (state_64 self)) \<and>
              \<bar>round64 (real_of (w1_64 (state_64 self)) - s)\<bar> < 2 ^ 1024 \<and>
              \<bar>round64 (real_of (w1_64 (state_64 self)) + s)\<bar> < 2 ^ 1024 \<longrightarrow>
                is_finite (w1_64 (state_64 self')) \<and>
                round64 (real_of (w1_64 (state_64 self)) - s) \<le> real_of (w1_64 (state_64 self')) \<and>
                real_of (w1_64 (state_64 self')) \<le> round64 (real_of (w1_64 (state_64 self)) + s)"
    unfolding st using add64_between [of "w1_64 (state_64 self)" r1 s] b1 by blast
  have c2: "is_finite (w2_64 (state_64 self)) \<and>
              \<bar>round64 (real_of (w2_64 (state_64 self)) - s)\<bar> < 2 ^ 1024 \<and>
              \<bar>round64 (real_of (w2_64 (state_64 self)) + s)\<bar> < 2 ^ 1024 \<longrightarrow>
                is_finite (w2_64 (state_64 self')) \<and>
                round64 (real_of (w2_64 (state_64 self)) - s) \<le> real_of (w2_64 (state_64 self')) \<and>
                real_of (w2_64 (state_64 self')) \<le> round64 (real_of (w2_64 (state_64 self)) + s)"
    unfolding st using add64_between [of "w2_64 (state_64 self)" r2 s] b2 by blast
  have z: "round64 x1 = x1 \<and> \<bar>x1\<bar> < 2 ^ 1024 \<and> round64 x2 = x2 \<and> \<bar>x2\<bar> < 2 ^ 1024 \<longrightarrow>
            state_64 (fst (perturb64
                (self\<lparr>state_64 := \<lparr> th1_64 = a1, w1_64 = Fin x1, th2_64 = a2, w2_64 = Fin x2 \<rparr>\<rparr>)
                (Some (Fin 0)) (Fin u1) (Fin u2)))
              = \<lparr> th1_64 = a1, w1_64 = Fin x1, th2_64 = a2, w2_64 = Fin x2 \<rparr>"
    using assms(4,6)
    by (simp add: perturb64_def Let_def uniform64_zero add64_Fin_zero del: neg64.simps)
  show ?thesis
    unfolding Let_def
    using b1 b2 st c1 c2 z
    unfolding self'_def r1_def r2_def by (intro conjI) assumption+
qed

lemma round64_small_values:
  "round64 3 = 3" "round64 4 = 4"
proof -
  show "round64 3 = 3"
    by (rule round64_exact [where e = 1 and n = "3 * 2 ^ 51"]) simp_all
  show "round64 4 = 4"
    by (rule round64_exact [where e = 2 and n = "2 ^ 52"]) simp_all
qed

theorem perturb64_adds_within_strength_witness:
  "(0::real) \<le> 4 \<and> round64 4 = 4 \<and> (2::real) * 4 < 2 ^ 1024 \<and>
   (0::real) \<le> 0 \<and> (0::real) < 1 \<and> (0::real) \<le> 3 / 4 \<and> (3::real) / 4 < 1 \<and>
   is_finite (w1_64 (state_64 (engine64_of 1 1 1 1 rest64))) \<and>
   \<bar>round64 (real_of (w1_64 (state_64 (engine64_of 1 1 1 1 rest64))) - 4)\<bar> < 2 ^ 1024 \<and>
   \<bar>round64 (real_of (w1_64 (state_64 (engine64_of 1 1 1 1 rest64))) + 4)\<bar> < 2 ^ 1024 \<and>
   is_finite (w2_64 (state_64 (engine64_of 1 1 1 1 rest64))) \<and>
   \<bar>round64 (real_of (w2_64 (state_64 (engine64_of 1 1 1 1 rest64))) - 4)\<bar> < 2 ^ 1024 \<and>
   \<bar>round64 (real_of (w2_64 (state_64 (engine64_of 1 1 1 1 rest64))) + 4)\<bar> < 2 ^ 1024 \<and>
   state_64 (fst (perturb64 (engine64_of 1 1 1 1 rest64) (Some (Fin 4)) (Fin 0) (Fin (3 / 4))))
     = \<lparr> th1_64 = Fin 0, w1_64 = Fin (- 4), th2_64 = Fin 0, w2_64 = Fin 2 \<rparr> \<and>
   round64 3 = 3 \<and> \<bar>3::real\<bar> < 2 ^ 1024 \<and> round64 (- 4) = - 4 \<and> \<bar>- 4::real\<bar> < 2 ^ 1024 \<and>
   state_64 (fst (perturb64
       ((engine64_of 1 1 1 1 rest64)
          \<lparr>state_64 := \<lparr> th1_64 = Fin 0, w1_64 = Fin 3, th2_64 = Fin 0, w2_64 = Fin (- 4) \<rparr>\<rparr>)
       (Some (Fin 0)) (Fin 0) (Fin (3 / 4))))
     = \<lparr> th1_64 = Fin 0, w1_64 = Fin 3, th2_64 = Fin 0, w2_64 = Fin (- 4) \<rparr>"
proof -
  have h: "(0::real) \<le> 4" "round64 4 = 4" "(2::real) * 4 < 2 ^ 1024"
    "(0::real) \<le> 0" "(0::real) < 1" "(0::real) \<le> 3 / 4" "(3::real) / 4 < 1"
    by (simp_all add: round64_small_values)
  have d: "round64 3 = 3 \<and> \<bar>3::real\<bar> < 2 ^ 1024 \<and> round64 (- 4) = - 4 \<and> \<bar>- 4::real\<bar> < 2 ^ 1024"
    by (simp add: round64_small_values round64_minus)
  have f: "is_finite (w1_64 (state_64 (engine64_of 1 1 1 1 rest64)))"
    "\<bar>round64 (real_of (w1_64 (state_64 (engine64_of 1 1 1 1 rest64))) - 4)\<bar> < 2 ^ 1024"
    "\<bar>round64 (real_of (w1_64 (state_64 (engine64_of 1 1 1 1 rest64))) + 4)\<bar> < 2 ^ 1024"
    "is_finite (w2_64 (state_64 (engine64_of 1 1 1 1 rest64)))"
    "\<bar>round64 (real_of (w2_64 (state_64 (engine64_of 1 1 1 1 rest64))) - 4)\<bar> < 2 ^ 1024"
    "\<bar>round64 (real_of (w2_64 (state_64 (engine64_of 1 1 1 1 rest64))) + 4)\<bar> < 2 ^ 1024"
    by (simp_all add: engine64_of_def rest64_def round64_small_values round64_minus)
  have v: "state_64 (fst (perturb64 (engine64_of 1 1 1 1 rest64) (Some (Fin 4)) (Fin 0) (Fin (3 / 4))))
     = \<lparr> th1_64 = Fin 0, w1_64 = Fin (- 4), th2_64 = Fin 0, w2_64 = Fin 2 \<rparr>"
    by (simp add: perturb64_def uniform64_def engine64_of_def rest64_def sub64_def
        add64_Fin mul64_Fin finish_small_values finish_2 zero_of_def)
  from perturb64_adds_within_strength [OF h, of "engine64_of 1 1 1 1 rest64" 3 "- 4" "Fin 0" "Fin 0"] d
  have z: "state_64 (fst (perturb64
       ((engine64_of 1 1 1 1 rest64)
          \<lparr>state_64 := \<lparr> th1_64 = Fin 0, w1_64 = Fin 3, th2_64 = Fin 0, w2_64 = Fin (- 4) \<rparr>\<rparr>)
       (Some (Fin 0)) (Fin 0) (Fin (3 / 4))))
     = \<lparr> th1_64 = Fin 0, w1_64 = Fin 3, th2_64 = Fin 0, w2_64 = Fin (- 4) \<rparr>"
    by blast
  show ?thesis
    using h d f v z by (intro conjI) simp_all
qed

end
